theory Spec2Isabelle
  imports Complex_Main "HOL-Library.Log_Nat"
begin

section \<open>JavaScript numbers\<close>

text \<open>
  The numbers of JavaScript are the IEEE 754 doubles. A finite double is given by its
  exact rational value; the sign of zero is not modelled (the program never divides by
  zero and prints both zeros alike).
\<close>

datatype number = Finite rat | PosInfinity | NegInfinity | NotANumber

definition pow2 :: "int \<Rightarrow> rat" where
  "pow2 k = (if 0 \<le> k then 2 ^ nat k else 1 / 2 ^ nat (- k))"

text \<open>The exponent \<open>e\<close> of a positive rational \<open>x\<close>: \<open>2 ^ e \<le> x < 2 ^ (e + 1)\<close>.\<close>

definition floor_log2 :: "rat \<Rightarrow> int" where
  "floor_log2 x = (if 1 \<le> x then bitlen \<lfloor>x\<rfloor> - 1 else - bitlen (\<lceil>1 / x\<rceil> - 1))"

definition round_half_even :: "rat \<Rightarrow> int" where
  "round_half_even x =
     (let f = \<lfloor>x\<rfloor>; d = x - of_int f
      in if d < 1 / 2 then f else if 1 / 2 < d then f + 1 else if even f then f else f + 1)"

text \<open>
  The double nearest to a rational, a tie going to the even significand: 53 bits of
  significand \<open>m\<close>, the exponent \<open>e\<close> not below -1022 (subnormal numbers below it), and
  an infinity when the rounded magnitude reaches \<open>2 ^ 1024\<close>, that is when \<open>e\<close> exceeds
  1023 or is 1023 with the significand rounded up to \<open>2 ^ 53\<close>. This is the value of a
  numeric literal and the rounding of every arithmetic operation.
\<close>

definition double_of :: "rat \<Rightarrow> number" where
  "double_of r =
     (if r = 0 then Finite 0
      else (let e = max (floor_log2 \<bar>r\<bar>) (- 1022);
                q = pow2 (e - 52);
                m = round_half_even (r / q);
                infinity = (if 0 < r then PosInfinity else NegInfinity)
            in if 1023 < e then infinity
               else if e = 1023 then (if \<bar>m\<bar> = 2 ^ 53 then infinity else Finite (of_int m * q))
               else Finite (of_int m * q)))"

text \<open>\<^verbatim>\<open>x + y\<close>, \<^verbatim>\<open>x * y\<close> and \<^verbatim>\<open>x / y\<close> on numbers.\<close>

fun js_add :: "number \<Rightarrow> number \<Rightarrow> number" where
  "js_add (Finite a) (Finite b) = double_of (a + b)"
| "js_add NotANumber y = NotANumber"
| "js_add x NotANumber = NotANumber"
| "js_add PosInfinity NegInfinity = NotANumber"
| "js_add NegInfinity PosInfinity = NotANumber"
| "js_add PosInfinity y = PosInfinity"
| "js_add NegInfinity y = NegInfinity"
| "js_add x PosInfinity = PosInfinity"
| "js_add x NegInfinity = NegInfinity"

fun negative :: "number \<Rightarrow> bool" where
  "negative (Finite a) = (a < 0)"
| "negative NegInfinity = True"
| "negative x = False"

fun js_mul :: "number \<Rightarrow> number \<Rightarrow> number" where
  "js_mul (Finite a) (Finite b) = double_of (a * b)"
| "js_mul NotANumber y = NotANumber"
| "js_mul x NotANumber = NotANumber"
| "js_mul (Finite a) y =
     (if a = 0 then NotANumber else if negative (Finite a) = negative y then PosInfinity
      else NegInfinity)"
| "js_mul x (Finite b) =
     (if b = 0 then NotANumber else if negative x = negative (Finite b) then PosInfinity
      else NegInfinity)"
| "js_mul x y = (if negative x = negative y then PosInfinity else NegInfinity)"

fun js_div :: "number \<Rightarrow> number \<Rightarrow> number" where
  "js_div (Finite a) (Finite b) =
     (if b = 0 then (if a = 0 then NotANumber else if 0 < a then PosInfinity else NegInfinity)
      else double_of (a / b))"
| "js_div NotANumber y = NotANumber"
| "js_div x NotANumber = NotANumber"
| "js_div (Finite a) y = Finite 0"
| "js_div x (Finite b) = (if negative x = negative (Finite b) then PosInfinity else NegInfinity)"
| "js_div x y = NotANumber"

text \<open>\<^verbatim>\<open>x >= y\<close> and \<^verbatim>\<open>x < y\<close>; every comparison with NaN is false.\<close>

fun js_ge :: "number \<Rightarrow> number \<Rightarrow> bool" where
  "js_ge (Finite a) (Finite b) = (b \<le> a)"
| "js_ge NotANumber y = False"
| "js_ge x NotANumber = False"
| "js_ge PosInfinity y = True"
| "js_ge x NegInfinity = True"
| "js_ge x y = False"

fun js_lt :: "number \<Rightarrow> number \<Rightarrow> bool" where
  "js_lt (Finite a) (Finite b) = (a < b)"
| "js_lt NotANumber y = False"
| "js_lt x NotANumber = False"
| "js_lt PosInfinity y = False"
| "js_lt x NegInfinity = False"
| "js_lt x y = True"

text \<open>
  \<^verbatim>\<open>Math.round\<close>: the nearest integer, a tie going up. The result is exact: a double of
  magnitude \<open>2 ^ 52\<close> or more is an integer, and every integer below is a double.
\<close>

fun math_round :: "number \<Rightarrow> number" where
  "math_round (Finite r) = Finite (of_int \<lfloor>r + 1 / 2\<rfloor>)"
| "math_round x = x"

section \<open>JavaScript values\<close>

text \<open>
  The services of \<^verbatim>\<open>BIAService.js\<close> build plain JavaScript objects out of the
  payloads the source adapters return. A value is modelled by \<open>jsval\<close>; an object is its
  list of own properties in the order of the literal. A number is written as a rational
  \<open>r\<close>, as a numeric literal is in the source, and stands for the double \<open>double_of r\<close>
  nearest to it. \<open>JBuiltin n\<close> is the member \<open>n\<close> that every plain object inherits from
  \<^verbatim>\<open>Object.prototype\<close>.
\<close>

datatype jsval =
    JUndefined
  | JNull
  | JBool bool
  | JNum rat
  | JStr string
  | JArr "jsval list"
  | JObj "(string \<times> jsval) list"
  | JBuiltin string

text \<open>Truthiness, as the operator \<^verbatim>\<open>||\<close> and the \<^verbatim>\<open>if\<close> statement test it.\<close>

fun truthy :: "jsval \<Rightarrow> bool" where
  "truthy JUndefined = False"
| "truthy JNull = False"
| "truthy (JBool b) = b"
| "truthy (JNum r) = (double_of r \<noteq> Finite 0)"
| "truthy (JStr s) = (s \<noteq> [])"
| "truthy (JArr xs) = True"
| "truthy (JObj kvs) = True"
| "truthy (JBuiltin n) = True"

text \<open>\<^verbatim>\<open>a || b\<close>\<close>

definition js_or :: "jsval \<Rightarrow> jsval \<Rightarrow> jsval" where
  "js_or a b = (if truthy a then a else b)"

text \<open>
  The property names of \<^verbatim>\<open>Object.prototype\<close>. A read \<^verbatim>\<open>o[k]\<close> on an object
  literal finds the own property \<open>k\<close> first and otherwise walks to the prototype, where
  each of these names is defined (eleven functions, and the accessor \<^verbatim>\<open>__proto__\<close>
  that yields the prototype itself); all twelve values are truthy.
\<close>

definition object_prototype_names :: "string list" where
  "object_prototype_names =
     [''constructor'', ''__defineGetter__'', ''__defineSetter__'', ''hasOwnProperty'',
      ''__lookupGetter__'', ''__lookupSetter__'', ''isPrototypeOf'',
      ''propertyIsEnumerable'', ''toString'', ''valueOf'', ''__proto__'',
      ''toLocaleString'']"

text \<open>\<^verbatim>\<open>o[k]\<close> for an object literal \<open>o\<close> with own properties \<open>kvs\<close>.\<close>

definition obj_get :: "(string \<times> jsval) list \<Rightarrow> string \<Rightarrow> jsval" where
  "obj_get kvs k =
     (case map_of kvs k of
        Some v \<Rightarrow> v
      | None \<Rightarrow> if k \<in> set object_prototype_names then JBuiltin k else JUndefined)"

text \<open>
  \<^verbatim>\<open>v?.k\<close>: undefined on \<^verbatim>\<open>undefined\<close> and \<^verbatim>\<open>null\<close>, the property on an
  object. The names this program reads that way (\<^verbatim>\<open>availability_forecast\<close>,
  \<^verbatim>\<open>overall_risk\<close>, \<^verbatim>\<open>current_estimate\<close>, ...) are defined on no primitive, array
  or function, so the read is undefined there.
\<close>

fun opt_get :: "jsval \<Rightarrow> string \<Rightarrow> jsval" where
  "opt_get (JObj kvs) k = obj_get kvs k"
| "opt_get v k = JUndefined"

section \<open>Source payloads\<close>

text \<open>
  Every adapter of \<^verbatim>\<open>DataIntegrationService.js\<close> returns an object that carries a
  numeric confidence score (\<^verbatim>\<open>confidence_score\<close>; \<^verbatim>\<open>confidence_overall\<close> for the
  predictions) next to its other properties. \<open>score\<close> is that number, \<open>None\<close> when the
  property is missing; \<open>props\<close> holds the other properties. A slot of
  \<^verbatim>\<open>autoPopulatedData\<close> is \<open>None\<close> when the controller put \<^verbatim>\<open>null\<close> there
  because the adapter's promise was rejected.
\<close>

record payload =
  score :: "rat option"
  props :: "(string \<times> jsval) list"

record sources =
  registry :: "payload option"
  pagerDuty :: "payload option"
  hr :: "payload option"
  financial :: "payload option"
  monitoring :: "payload option"
  predictions :: "payload option"

text \<open>\<^verbatim>\<open>data?.name\<close> for a property other than the score.\<close>

definition field :: "payload option \<Rightarrow> string \<Rightarrow> jsval" where
  "field data name = (case data of None \<Rightarrow> JUndefined | Some p \<Rightarrow> obj_get (props p) name)"

text \<open>\<^verbatim>\<open>data?.confidence_score\<close> as a value.\<close>

definition score_value :: "payload option \<Rightarrow> jsval" where
  "score_value data =
     (case data of
        None \<Rightarrow> JUndefined
      | Some p \<Rightarrow> (case score p of None \<Rightarrow> JUndefined | Some r \<Rightarrow> JNum r))"

text \<open>\<^verbatim>\<open>data?.confidence_score || d\<close>\<close>

definition score_or :: "payload option \<Rightarrow> rat \<Rightarrow> rat" where
  "score_or data d = (case js_or (score_value data) (JNum d) of JNum r \<Rightarrow> r | _ \<Rightarrow> d)"

section \<open>The confidence aggregator\<close>

record assessment =
  overall_confidence :: number
  data_completeness :: number
  confidence_level :: string
  recommendations :: "string list"

text \<open>
  \<^verbatim>\<open>if (data?.confidence_score) scores.push(data.confidence_score)\<close>
\<close>

definition push_score :: "payload option \<Rightarrow> number list \<Rightarrow> number list" where
  "push_score data scores =
     (case score_value data of
        JNum r \<Rightarrow> if truthy (JNum r) then scores @ [double_of r] else scores
      | _ \<Rightarrow> scores)"

definition calculateConfidenceScores :: "sources \<Rightarrow> assessment" where
  "calculateConfidenceScores autoPopulatedData =
     (let scores = push_score (predictions autoPopulatedData)
                  (push_score (monitoring autoPopulatedData)
                  (push_score (financial autoPopulatedData)
                  (push_score (hr autoPopulatedData)
                  (push_score (pagerDuty autoPopulatedData)
                  (push_score (registry autoPopulatedData) [])))));
          overallConfidence =
            (if length scores > 0
             then js_div (foldl (\<lambda>a b. js_add a b) (double_of 0) scores)
                         (Finite (of_nat (length scores)))
             else double_of (1 / 2))
      in \<lparr> overall_confidence =
             js_div (math_round (js_mul overallConfidence (double_of 100))) (double_of 100),
           data_completeness =
             js_mul (js_div (Finite (of_nat (length scores))) (double_of 6)) (double_of 100),
           confidence_level =
             (if js_ge overallConfidence (double_of (4 / 5)) then ''High''
              else if js_ge overallConfidence (double_of (3 / 5)) then ''Medium'' else ''Low''),
           recommendations =
             (if js_lt overallConfidence (double_of (7 / 10))
              then [''Verify data source connections'',
                    ''Update missing information'',
                    ''Schedule data validation review'']
              else []) \<rparr>)"

section \<open>The section builders\<close>

definition generatePersonnelSection :: "payload option \<Rightarrow> payload option \<Rightarrow> jsval" where
  "generatePersonnelSection hrData pagerDutyData = JObj
     [(''team_size'', js_or (field hrData ''team_size'') (JStr ''Unknown'')),
      (''key_personnel'', js_or (field hrData ''key_personnel'') (JArr
         [JObj [(''name'', JStr ''Tech Lead (TBD)''), (''role'', JStr ''Technical Leadership''),
                (''backup'', JStr ''Senior Engineer'')],
          JObj [(''name'', JStr ''Product Manager (TBD)''), (''role'', JStr ''Product Strategy''),
                (''backup'', JStr ''Associate PM'')],
          JObj [(''name'', JStr ''Operations Manager (TBD)''), (''role'', JStr ''Operations''),
                (''backup'', JStr ''Senior Ops'')]])),
      (''escalation_policy'',
         js_or (field pagerDutyData ''escalation_policy'') (JStr ''Standard escalation path'')),
      (''on_call_schedule'', js_or (field pagerDutyData ''on_call_schedule'') (JStr ''24/7 rotation'')),
      (''manager_chain'', js_or (field hrData ''manager_chain'')
         (JArr [JStr ''Team Lead'', JStr ''Manager'', JStr ''Director'', JStr ''VP''])),
      (''business_hours'', js_or (field hrData ''business_hours'') (JStr ''24/7 operations'')),
      (''confidence_score'', JNum (min (score_or hrData (1 / 2)) (score_or pagerDutyData (1 / 2)))),
      (''data_sources'', JArr [JStr ''HR Systems'', JStr ''PagerDuty'']),
      (''auto_populated'', JBool True)]"

definition calculateImpactMatrix :: "payload option \<Rightarrow> jsval" where
  "calculateImpactMatrix financialData = JObj
     [(''low'', JStr ''Minimal customer impact, <$100K revenue''),
      (''medium'', JStr ''Moderate customer impact, $100K-$1M revenue''),
      (''high'', JStr ''Significant customer impact, $1M-$10M revenue''),
      (''critical'', JStr ''Severe customer impact, >$10M revenue'')]"

definition generateBusinessImpactSection :: "payload option \<Rightarrow> payload option \<Rightarrow> jsval" where
  "generateBusinessImpactSection financialData preds =
     (let impactMatrix = calculateImpactMatrix financialData in JObj
     [(''daily_revenue_impact'', js_or (field financialData ''daily_revenue_impact'') (JStr ''TBD'')),
      (''monthly_revenue_impact'',
         js_or (field financialData ''monthly_revenue_impact'') (JStr ''TBD'')),
      (''active_customers'', js_or (field financialData ''active_customers'') (JStr ''TBD'')),
      (''transaction_volume'', js_or (field financialData ''transaction_volume'')
         (JObj [(''daily'', JStr ''TBD''), (''peak_hourly'', JStr ''TBD'')])),
      (''customer_segments'', js_or (field financialData ''customer_segments'')
         (JObj [(''enterprise'', JStr ''TBD''), (''smb'', JStr ''TBD''), (''consumer'', JStr ''TBD'')])),
      (''impact_timeline'', JObj
         [(''1_4_hours'', opt_get impactMatrix ''low''),
          (''4_24_hours'', opt_get impactMatrix ''medium''),
          (''1_7_days'', opt_get impactMatrix ''high''),
          (''7_plus_days'', opt_get impactMatrix ''critical'')]),
      (''predictive_impact'', JObj
         [(''twelve_month_forecast'',
             js_or (opt_get (field preds ''performance_predictions'') ''availability_forecast'')
                   (JStr ''TBD'')),
          (''risk_level'',
             js_or (opt_get (field preds ''risk_assessment'') ''overall_risk'') (JStr ''Medium'')),
          (''improvement_potential'',
             js_or (opt_get (field preds ''rto_analysis'') ''improvement_potential'')
                   (JStr ''TBD''))]),
      (''confidence_score'', JNum (score_or financialData (3 / 5))),
      (''data_sources'',
         JArr [JStr ''Financial Systems'', JStr ''Analytics APIs'', JStr ''Rooster Predictions'']),
      (''auto_populated'', JBool True)])"

definition generateTechnologySection :: "payload option \<Rightarrow> jsval" where
  "generateTechnologySection registryData = JObj
     [(''core_technologies'', js_or (field registryData ''technology_stack'') (JArr [JStr ''Unknown''])),
      (''service_dependencies'', js_or (field registryData ''dependencies'') (JArr [JStr ''Unknown''])),
      (''reliability_tier'', js_or (field registryData ''reliability_tier'') (JStr ''Unknown'')),
      (''deployment_info'', js_or (field registryData ''deployment_info'')
         (JObj [(''regions'', JArr [JStr ''Unknown'']), (''replicas'', JStr ''Unknown''),
                (''auto_scaling'', JStr ''Unknown'')])),
      (''documentation'', JObj
         [(''runbook_url'', js_or (field registryData ''runbook_url'') (JStr ''TBD'')),
          (''documentation_url'', js_or (field registryData ''documentation_url'') (JStr ''TBD'')),
          (''slack_channel'', js_or (field registryData ''slack_channel'') (JStr ''TBD''))]),
      (''confidence_score'', JNum (score_or registryData (7 / 10))),
      (''data_sources'', JArr [JStr ''Registry (Snowflake)'', JStr ''CMDB'']),
      (''auto_populated'', JBool True)]"

definition generateRecoverySection :: "payload option \<Rightarrow> payload option \<Rightarrow> jsval" where
  "generateRecoverySection preds monitoringData = JObj
     [(''rto'', JObj
         [(''current'',
             js_or (opt_get (field preds ''rto_analysis'') ''current_estimate'') (JStr ''4 hours'')),
          (''target'',
             js_or (opt_get (field preds ''rto_analysis'') ''twelve_month_forecast'')
                   (JStr ''2 hours'')),
          (''confidence'',
             js_or (opt_get (field preds ''rto_analysis'') ''confidence_score'') (JNum (7 / 10)))]),
      (''rpo'', JObj
         [(''current'',
             js_or (opt_get (field preds ''rpo_analysis'') ''current_estimate'') (JStr ''1 hour'')),
          (''target'',
             js_or (opt_get (field preds ''rpo_analysis'') ''twelve_month_forecast'')
                   (JStr ''30 minutes'')),
          (''confidence'',
             js_or (opt_get (field preds ''rpo_analysis'') ''confidence_score'') (JNum (7 / 10)))]),
      (''current_availability'', js_or (field monitoringData ''current_availability'') (JStr ''99.5%'')),
      (''sla_target'', js_or (field monitoringData ''sla_target'') (JStr ''99.9%'')),
      (''mttr'',
         js_or (opt_get (field monitoringData ''performance_metrics'') ''avg_response_time'')
               (JStr ''TBD'')),
      (''recovery_timeline'', JObj
         [(''detection'', JStr ''0-15 minutes''),
          (''initial_response'', JStr ''15-30 minutes''),
          (''mitigation'', JStr ''30 minutes - 2 hours''),
          (''full_recovery'', JStr ''2-4 hours'')]),
      (''scenarios'', js_or (field preds ''scenarios'') (JObj
         [(''best_case'',
             JObj [(''rto'', JStr ''TBD''), (''rpo'', JStr ''TBD''), (''probability'', JStr ''25%'')]),
          (''most_likely'',
             JObj [(''rto'', JStr ''TBD''), (''rpo'', JStr ''TBD''), (''probability'', JStr ''50%'')]),
          (''worst_case'',
             JObj [(''rto'', JStr ''TBD''), (''rpo'', JStr ''TBD''), (''probability'', JStr ''25%'')])])),
      (''confidence_score'',
         JNum (min (score_or preds (7 / 10)) (score_or monitoringData (7 / 10)))),
      (''data_sources'',
         JArr [JStr ''Rooster Predictions'', JStr ''Monitoring Systems'', JStr ''Historical Data'']),
      (''auto_populated'', JBool True)]"

section \<open>The static rule tables\<close>

definition getBCMClassification :: "string \<Rightarrow> jsval" where
  "getBCMClassification functionType =
     (let classifications =
        [(''product'', JStr ''Critical - Customer Facing''),
         (''platform'', JStr ''Important - Business Enabling''),
         (''support'', JStr ''Supporting - Internal Operations''),
         (''infrastructure'', JStr ''Critical - Foundation Service''),
         (''compliance'', JStr ''Important - Regulatory Required'')]
      in js_or (obj_get classifications functionType) (JStr ''To Be Determined''))"

definition getMTPD :: "string \<Rightarrow> jsval" where
  "getMTPD functionType =
     (let mtpds =
        [(''product'', JStr ''2 hours''),
         (''platform'', JStr ''4 hours''),
         (''support'', JStr ''24 hours''),
         (''infrastructure'', JStr ''1 hour''),
         (''compliance'', JStr ''8 hours'')]
      in js_or (obj_get mtpds functionType) (JStr ''4 hours''))"

definition getMBCO :: "string \<Rightarrow> jsval" where
  "getMBCO functionType =
     (let mbcos =
        [(''product'', JStr ''80% capacity within MTPD''),
         (''platform'', JStr ''60% capacity within MTPD''),
         (''support'', JStr ''50% capacity within MTPD''),
         (''infrastructure'', JStr ''95% capacity within MTPD''),
         (''compliance'', JStr ''70% capacity within MTPD'')]
      in js_or (obj_get mbcos functionType) (JStr ''60% capacity within MTPD''))"

definition getResourceRequirements :: "string \<Rightarrow> jsval" where
  "getResourceRequirements functionType =
     (let resources =
        [(''product'', JStr ''Dedicated DR site, 24/7 support''),
         (''platform'', JStr ''Hot standby, business hours support''),
         (''support'', JStr ''Workarounds, extended hours support''),
         (''infrastructure'', JStr ''Real-time replication, immediate response''),
         (''compliance'', JStr ''Backup systems, priority restoration'')]
      in js_or (obj_get resources functionType) (JStr ''Standard backup procedures''))"

definition getComplianceRequirements :: "string \<Rightarrow> jsval" where
  "getComplianceRequirements functionType =
     (let requirements =
        [(''product'', JArr [JStr ''PCI-DSS'', JStr ''SOX Controls'', JStr ''Data Privacy'']),
         (''platform'', JArr [JStr ''SOX Controls'', JStr ''Data Privacy'', JStr ''Security Standards'']),
         (''support'', JArr [JStr ''Data Privacy'', JStr ''Access Controls'']),
         (''infrastructure'',
            JArr [JStr ''Security Standards'', JStr ''Audit Logging'', JStr ''Change Management'']),
         (''compliance'',
            JArr [JStr ''All Applicable Standards'', JStr ''Regulatory Reporting'', JStr ''Audit Trail''])]
      in js_or (obj_get requirements functionType) (JArr [JStr ''Standard Controls'']))"

definition getDataClassification :: "string \<Rightarrow> jsval" where
  "getDataClassification functionType =
     (if functionType = ''product'' then JStr ''PII/Financial'' else JStr ''Internal/Confidential'')"

definition getRegulatoryImpact :: "string \<Rightarrow> jsval" where
  "getRegulatoryImpact functionType =
     (if functionType = ''product'' then JStr ''High - Customer facing''
      else JStr ''Medium - Internal operations'')"

definition getLegalEntity :: "string \<Rightarrow> jsval" where
  "getLegalEntity region =
     (let entities =
        [(''na'', JStr ''Block, Inc. (Delaware)''),
         (''eu'', JStr ''Block Europe Limited (Ireland)''),
         (''apac'', JStr ''Block Japan KK'')]
      in js_or (obj_get entities region) (JStr ''TBD''))"

definition getRegulatoryFramework :: "string \<Rightarrow> jsval" where
  "getRegulatoryFramework region =
     (let frameworks =
        [(''na'', JStr ''SOX/FDIC''),
         (''eu'', JStr ''GDPR/DORA''),
         (''apac'', JStr ''JFSA (Japan)'')]
      in js_or (obj_get frameworks region) (JStr ''Local Regulations''))"

definition getDataResidency :: "string \<Rightarrow> jsval" where
  "getDataResidency region =
     (let residency =
        [(''na'', JStr ''US/Canada Only''),
         (''eu'', JStr ''EU Only''),
         (''apac'', JStr ''Local + Singapore'')]
      in js_or (obj_get residency region) (JStr ''Local Requirements''))"

definition getLocalRequirements :: "string \<Rightarrow> jsval" where
  "getLocalRequirements region =
     JArr [JStr ''Data localization'', JStr ''Local incident reporting'',
           JStr ''Regulatory notifications'']"

definition getRegionalRTO :: "string \<Rightarrow> jsval" where
  "getRegionalRTO region =
     (let rtos =
        [(''na'', JStr ''2 hours''),
         (''eu'', JStr ''4 hours''),
         (''apac'', JStr ''6 hours'')]
      in js_or (obj_get rtos region) (JStr ''4 hours''))"

definition getRegionalRPO :: "string \<Rightarrow> jsval" where
  "getRegionalRPO region =
     (let rpos =
        [(''na'', JStr ''30 minutes''),
         (''eu'', JStr ''1 hour''),
         (''apac'', JStr ''2 hours'')]
      in js_or (obj_get rpos region) (JStr ''1 hour''))"

text \<open>
  What the program reads from outside: the identifier \<^verbatim>\<open>uuidv4()\<close> draws, the clock as
  \<^verbatim>\<open>new Date().toISOString()\<close> prints it, and the date three months ahead that
  \<^verbatim>\<open>getNextTestDate\<close> formats from the same clock.
\<close>

record env =
  uuid :: string
  now_iso :: string
  next_quarter :: string

definition getNextTestDate :: "env \<Rightarrow> jsval" where
  "getNextTestDate e = JStr (next_quarter e)"

section \<open>The rule-derived sections and the regional overlays\<close>

definition generateRiskComplianceSection :: "payload option \<Rightarrow> string \<Rightarrow> jsval" where
  "generateRiskComplianceSection registryData functionType =
     (let complianceRequirements = getComplianceRequirements functionType in JObj
     [(''compliance_requirements'', complianceRequirements),
      (''data_classification'', getDataClassification functionType),
      (''regulatory_impact'', getRegulatoryImpact functionType),
      (''security_considerations'', JArr
         [JStr ''Data encryption in transit and at rest'',
          JStr ''Access controls and authentication'',
          JStr ''Audit logging and monitoring'',
          JStr ''Incident response procedures'']),
      (''confidence_score'', JNum (4 / 5)),
      (''data_sources'', JArr [JStr ''Compliance Database'', JStr ''Security Policies'']),
      (''auto_populated'', JBool True)])"

definition generateISO22301Section :: "env \<Rightarrow> string \<Rightarrow> payload option \<Rightarrow> jsval" where
  "generateISO22301Section e functionType preds = JObj
     [(''business_function_classification'', getBCMClassification functionType),
      (''mtpd'', getMTPD functionType),
      (''mbco'', getMBCO functionType),
      (''resource_requirements'', getResourceRequirements functionType),
      (''continuity_strategies'', JArr
         [JStr ''Automated failover procedures'',
          JStr ''Geographic redundancy'',
          JStr ''Data backup and recovery'',
          JStr ''Alternative processing sites'']),
      (''testing_requirements'', JObj
         [(''frequency'', JStr ''Quarterly''),
          (''scope'', JStr ''Full system recovery''),
          (''success_criteria'', JStr ''RTO/RPO targets met''),
          (''next_test_date'', getNextTestDate e)]),
      (''risk_assessment'', js_or (field preds ''risk_assessment'') (JObj
         [(''overall_risk'', JStr ''Medium''),
          (''risk_factors'', JArr [JStr ''Standard operational risks'']),
          (''mitigation_recommendations'', JArr [JStr ''Standard mitigation strategies''])])),
      (''confidence_score'', JNum (17 / 20)),
      (''data_sources'',
         JArr [JStr ''ISO 22301 Framework'', JStr ''BCM Policies'', JStr ''Rooster Analysis'']),
      (''auto_populated'', JBool True)]"

text \<open>
  A requested overlay is an object with a \<^verbatim>\<open>region\<close> code; the code is a string.
\<close>

record overlay =
  region :: string

definition generateRegionalOverlays :: "overlay list \<Rightarrow> jsval list" where
  "generateRegionalOverlays regionalOverlays =
     map (\<lambda>overlay. JObj
       [(''region'', JStr (region overlay)),
        (''legal_entity'', getLegalEntity (region overlay)),
        (''regulatory_framework'', getRegulatoryFramework (region overlay)),
        (''data_residency'', getDataResidency (region overlay)),
        (''local_requirements'', getLocalRequirements (region overlay)),
        (''regional_rto'', getRegionalRTO (region overlay)),
        (''regional_rpo'', getRegionalRPO (region overlay)),
        (''confidence_score'', JNum (3 / 4)),
        (''auto_populated'', JBool True)]) regionalOverlays"

section \<open>The data source summary\<close>

text \<open>
  \<^verbatim>\<open>if (data) sources.push({ name, status: 'connected', confidence, last_updated })\<close>;
  the predictions take \<^verbatim>\<open>last_updated\<close> from their \<^verbatim>\<open>generated_at\<close>.
\<close>

definition push_source :: "payload option \<Rightarrow> string \<Rightarrow> string \<Rightarrow> jsval list \<Rightarrow> jsval list" where
  "push_source data name stamp srcs =
     (case data of
        None \<Rightarrow> srcs
      | Some p \<Rightarrow> srcs @ [JObj [(''name'', JStr name),
                               (''status'', JStr ''connected''),
                               (''confidence'', score_value data),
                               (''last_updated'', field data stamp)]])"

definition generateDataSourceSummary :: "sources \<Rightarrow> jsval list" where
  "generateDataSourceSummary autoPopulatedData =
     push_source (predictions autoPopulatedData) ''Rooster Predictions'' ''generated_at''
    (push_source (monitoring autoPopulatedData) ''Monitoring Systems'' ''last_updated''
    (push_source (financial autoPopulatedData) ''Financial Systems'' ''last_updated''
    (push_source (hr autoPopulatedData) ''HR Systems'' ''last_updated''
    (push_source (pagerDuty autoPopulatedData) ''PagerDuty'' ''last_updated''
    (push_source (registry autoPopulatedData) ''Registry (Snowflake)'' ''last_updated'' [])))))"

section \<open>The document and its store\<close>

record document =
  bia_id :: string
  function_name :: string
  function_type :: string
  dri_name :: jsval
  dri_team :: jsval
  generated_at :: string
  status :: string
  version :: string
  personnel_information :: jsval
  business_impact :: jsval
  technology_dependencies :: jsval
  recovery_requirements :: jsval
  risk_compliance :: jsval
  iso_22301_compliance :: jsval
  regional_overlays :: "jsval list"
  predictive_analysis :: "payload option"
  data_sources :: "jsval list"
  confidence_assessment :: assessment

record biaRequest =
  functionName :: string
  functionType :: string
  driName :: jsval
  driTeam :: jsval
  regionalOverlays :: "overlay list option"
  autoPopulatedData :: sources

text \<open>
  The rows of \<^verbatim>\<open>bia_audit_log\<close> and the state around the services: the stored
  documents, the audit log, and the pushes the risk platform has received.
\<close>

record audit_entry =
  audit_bia_id :: string
  action :: string
  old_values :: jsval
  new_values :: jsval
  audit_comments :: jsval

record world =
  documents :: "(string \<times> document) list"
  audit_log :: "audit_entry list"
  fusion_pushes :: "(string \<times> jsval) list"

text \<open>The persistence operations are scaffolding: they log and return.\<close>

definition storeBIA :: "world \<Rightarrow> document \<Rightarrow> world \<times> string" where
  "storeBIA w biaDocument = (w, bia_id biaDocument)"

definition getBIAById :: "world \<Rightarrow> string \<Rightarrow> document option" where
  "getBIAById w i = None"

definition updateBIAStatus :: "world \<Rightarrow> string \<Rightarrow> string \<Rightarrow> jsval \<Rightarrow> world \<times> bool" where
  "updateBIAStatus w i st comments = (w, True)"

definition generateBIA :: "env \<Rightarrow> world \<Rightarrow> biaRequest \<Rightarrow> world \<times> document" where
  "generateBIA e w req =
     (let d = autoPopulatedData req;
          biaDocument =
            \<lparr> bia_id = uuid e,
              function_name = functionName req,
              function_type = functionType req,
              dri_name = driName req,
              dri_team = driTeam req,
              generated_at = now_iso e,
              status = ''draft'',
              version = ''1.0'',
              personnel_information = generatePersonnelSection (hr d) (pagerDuty d),
              business_impact = generateBusinessImpactSection (financial d) (predictions d),
              technology_dependencies = generateTechnologySection (registry d),
              recovery_requirements = generateRecoverySection (predictions d) (monitoring d),
              risk_compliance = generateRiskComplianceSection (registry d) (functionType req),
              iso_22301_compliance = generateISO22301Section e (functionType req) (predictions d),
              regional_overlays =
                (case regionalOverlays req of
                   Some overlays \<Rightarrow> generateRegionalOverlays overlays
                 | None \<Rightarrow> []),
              predictive_analysis = predictions d,
              data_sources = generateDataSourceSummary d,
              confidence_assessment = calculateConfidenceScores d \<rparr>;
          (w', stored) = storeBIA w biaDocument
      in (w', biaDocument))"

section \<open>The predictive engine\<close>

text \<open>
  \<^verbatim>\<open>RoosterService.generatePredictions\<close> talks to a Python subprocess through two
  temporary files. The file system is a map from paths to contents. A file holds text
  that \<^verbatim>\<open>JSON.parse\<close> rejects, or a JSON value: \<open>None\<close> for \<^verbatim>\<open>null\<close>, otherwise
  an object read like a payload, \<open>score\<close> being its \<^verbatim>\<open>overall_confidence\<close>.
\<close>

datatype content = Unparsable | Json "payload option"

type_synonym fs = "string \<Rightarrow> content option"

datatype rooster_error =
    WriteFailed | SpawnFailed | ExitFailed "int option" | ReadFailed | ParseFailed | FormatFailed
  | UnlinkFailed

text \<open>
  How one run of the subprocess ends: \<^verbatim>\<open>spawn\<close> emits \<^verbatim>\<open>error\<close>; the process
  closes with an exit code (none when a signal ended it), having written \<open>Some c\<close> to the
  output file or nothing; or it never closes.
\<close>

datatype exec_outcome = SpawnError | Closed "int option" "content option" | Hangs

record rooster_run =
  stamp_in :: string
  stamp_out :: string
  write_ok :: bool
  exec :: exec_outcome

record inputData =
  registryData :: "payload option"
  monitoringData :: "payload option"

definition roosterPath :: string where
  "roosterPath = ''/Users/mshevchik/rooster_bia''"

definition path_join :: "string \<Rightarrow> string \<Rightarrow> string" where
  "path_join dir name = dir @ ''/'' @ name"

definition inputFile :: "rooster_run \<Rightarrow> string" where
  "inputFile run = path_join roosterPath (''temp_input_'' @ stamp_in run @ ''.json'')"

definition outputFile :: "rooster_run \<Rightarrow> string" where
  "outputFile run = path_join roosterPath (''temp_output_'' @ stamp_out run @ ''.json'')"

definition payload_json :: "payload option \<Rightarrow> jsval" where
  "payload_json data =
     (case data of
        None \<Rightarrow> JNull
      | Some p \<Rightarrow> JObj (props p @ (case score p of None \<Rightarrow> []
                                   | Some r \<Rightarrow> [(''confidence_score'', JNum r)])))"

definition writeFile :: "rooster_run \<Rightarrow> string \<Rightarrow> content \<Rightarrow> fs \<Rightarrow> rooster_error + fs" where
  "writeFile run f c files = (if write_ok run then Inr (files(f \<mapsto> c)) else Inl WriteFailed)"

definition unlink :: "string \<Rightarrow> fs \<Rightarrow> rooster_error + fs" where
  "unlink f files = (if files f = None then Inl UnlinkFailed else Inr (files(f := None)))"

definition formatRoosterOutput :: "env \<Rightarrow> payload option \<Rightarrow> rooster_error + payload" where
  "formatRoosterOutput e roosterData =
     (case roosterData of
        None \<Rightarrow> Inl FormatFailed
      | Some rd \<Rightarrow> Inr
         \<lparr> score = Some (score_or roosterData (41 / 50)),
           props =
             [(''rto_analysis'', JObj
                 [(''current_estimate'', js_or (field roosterData ''current_rto'') (JStr ''45 minutes'')),
                  (''confidence_score'', js_or (field roosterData ''confidence'') (JNum (4 / 5))),
                  (''twelve_month_forecast'',
                     js_or (field roosterData ''forecast_rto'') (JStr ''35 minutes'')),
                  (''improvement_potential'', js_or (field roosterData ''improvement'') (JStr ''22%''))]),
              (''rpo_analysis'', JObj
                 [(''current_estimate'', js_or (field roosterData ''current_rpo'') (JStr ''15 minutes'')),
                  (''confidence_score'', js_or (field roosterData ''rpo_confidence'') (JNum (3 / 4))),
                  (''twelve_month_forecast'',
                     js_or (field roosterData ''forecast_rpo'') (JStr ''10 minutes'')),
                  (''improvement_potential'',
                     js_or (field roosterData ''rpo_improvement'') (JStr ''33%''))]),
              (''risk_assessment'', JObj
                 [(''overall_risk'', js_or (field roosterData ''risk_level'') (JStr ''Medium'')),
                  (''risk_factors'', js_or (field roosterData ''risk_factors'') (JArr
                     [JStr ''Elevated latency trends'', JStr ''Dependency complexity'',
                      JStr ''Limited redundancy''])),
                  (''mitigation_recommendations'', js_or (field roosterData ''recommendations'') (JArr
                     [JStr ''Implement circuit breakers'', JStr ''Add regional failover'',
                      JStr ''Optimize database queries'']))]),
              (''performance_predictions'', JObj
                 [(''availability_forecast'',
                     js_or (field roosterData ''availability_forecast'') (JStr ''99.92%'')),
                  (''capacity_utilization'',
                     js_or (field roosterData ''capacity_forecast'') (JStr ''68%'')),
                  (''scaling_requirements'',
                     js_or (field roosterData ''scaling_needs'') (JStr ''Moderate growth expected''))]),
              (''scenarios'', JObj
                 [(''best_case'', JObj
                     [(''rto'', js_or (field roosterData ''best_case_rto'') (JStr ''25 minutes'')),
                      (''rpo'', js_or (field roosterData ''best_case_rpo'') (JStr ''5 minutes'')),
                      (''probability'', JStr ''25%'')]),
                  (''most_likely'', JObj
                     [(''rto'', js_or (field roosterData ''likely_rto'') (JStr ''35 minutes'')),
                      (''rpo'', js_or (field roosterData ''likely_rpo'') (JStr ''10 minutes'')),
                      (''probability'', JStr ''50%'')]),
                  (''worst_case'', JObj
                     [(''rto'', js_or (field roosterData ''worst_case_rto'') (JStr ''60 minutes'')),
                      (''rpo'', js_or (field roosterData ''worst_case_rpo'') (JStr ''30 minutes'')),
                      (''probability'', JStr ''25%'')])]),
              (''data_sources'', js_or (field roosterData ''data_sources'') (JArr
                 [JStr ''Historical incident data'', JStr ''Performance metrics'',
                  JStr ''Dependency analysis'', JStr ''Capacity planning models''])),
              (''generated_at'', JStr (now_iso e)),
              (''rooster_version'', js_or (field roosterData ''version'') (JStr ''2.0''))] \<rparr>)"

definition getFallbackPredictions :: "env \<Rightarrow> string \<Rightarrow> payload" where
  "getFallbackPredictions e fname =
     \<lparr> score = Some (3 / 5),
       props =
         [(''rto_analysis'', JObj
             [(''current_estimate'', JStr ''45 minutes''),
              (''confidence_score'', JNum (3 / 5)),
              (''twelve_month_forecast'', JStr ''40 minutes''),
              (''improvement_potential'', JStr ''11%'')]),
          (''rpo_analysis'', JObj
             [(''current_estimate'', JStr ''15 minutes''),
              (''confidence_score'', JNum (3 / 5)),
              (''twelve_month_forecast'', JStr ''12 minutes''),
              (''improvement_potential'', JStr ''20%'')]),
          (''risk_assessment'', JObj
             [(''overall_risk'', JStr ''Medium''),
              (''risk_factors'', JArr
                 [JStr ''Limited historical data'', JStr ''Standard architecture patterns'',
                  JStr ''Typical operational complexity'']),
              (''mitigation_recommendations'', JArr
                 [JStr ''Establish baseline monitoring'', JStr ''Implement standard DR procedures'',
                  JStr ''Regular testing and validation''])]),
          (''performance_predictions'', JObj
             [(''availability_forecast'', JStr ''99.5%''),
              (''capacity_utilization'', JStr ''70%''),
              (''scaling_requirements'', JStr ''Standard growth patterns'')]),
          (''scenarios'', JObj
             [(''best_case'', JObj
                 [(''rto'', JStr ''30 minutes''), (''rpo'', JStr ''8 minutes''),
                  (''probability'', JStr ''25%'')]),
              (''most_likely'', JObj
                 [(''rto'', JStr ''45 minutes''), (''rpo'', JStr ''15 minutes''),
                  (''probability'', JStr ''50%'')]),
              (''worst_case'', JObj
                 [(''rto'', JStr ''90 minutes''), (''rpo'', JStr ''30 minutes''),
                  (''probability'', JStr ''25%'')])]),
          (''data_sources'', JArr
             [JStr ''Industry benchmarks'', JStr ''Standard patterns'', JStr ''Conservative estimates'']),
          (''generated_at'', JStr (now_iso e)),
          (''rooster_version'', JStr ''fallback''),
          (''note'',
             JStr ''Fallback predictions used - integrate with Rooster for enhanced accuracy'')] \<rparr>"

text \<open>
  \<^verbatim>\<open>executeRoosterPython\<close>: the promise is rejected on a spawn error, on an exit code
  other than 0, and when reading, parsing or formatting the output file throws; it is
  never settled (\<open>None\<close>) when the process never closes.
\<close>

definition executeRoosterPython ::
  "env \<Rightarrow> rooster_run \<Rightarrow> fs \<Rightarrow> (fs \<times> (rooster_error + payload)) option" where
  "executeRoosterPython e run files =
     (case exec run of
        Hangs \<Rightarrow> None
      | SpawnError \<Rightarrow> Some (files, Inl SpawnFailed)
      | Closed code written \<Rightarrow>
          (let files' = (case written of None \<Rightarrow> files | Some c \<Rightarrow> files(outputFile run \<mapsto> c))
           in if code = Some 0
              then (case files' (outputFile run) of
                      None \<Rightarrow> Some (files', Inl ReadFailed)
                    | Some Unparsable \<Rightarrow> Some (files', Inl ParseFailed)
                    | Some (Json v) \<Rightarrow> Some (files', formatRoosterOutput e v))
              else Some (files', Inl (ExitFailed code))))"

text \<open>
  \<^verbatim>\<open>generatePredictions\<close>: write the input file, run the engine, unlink both files,
  return the predictions; the \<^verbatim>\<open>catch\<close> around all of it returns the fallback
  predictions. An error of the two \<^verbatim>\<open>unlink\<close> calls is caught by the inner
  \<^verbatim>\<open>try\<close> and only logged.
\<close>

definition roosterInput :: "env \<Rightarrow> string \<Rightarrow> inputData \<Rightarrow> payload" where
  "roosterInput e fname inp =
     \<lparr> score = None,
       props = [(''function_name'', JStr fname),
                (''registry_data'', payload_json (registryData inp)),
                (''monitoring_data'', payload_json (monitoringData inp)),
                (''analysis_type'', JStr ''comprehensive''),
                (''prediction_horizon'', JStr ''12_months''),
                (''scenarios'', JArr [JStr ''best_case'', JStr ''worst_case'', JStr ''most_likely'']),
                (''timestamp'', JStr (now_iso e))] \<rparr>"

definition generatePredictions ::
  "env \<Rightarrow> rooster_run \<Rightarrow> fs \<Rightarrow> string \<Rightarrow> inputData \<Rightarrow> (fs \<times> payload) option" where
  "generatePredictions e run files fname inp =
     (case writeFile run (inputFile run) (Json (Some (roosterInput e fname inp))) files of
        Inl err \<Rightarrow> Some (files, getFallbackPredictions e fname)
      | Inr files1 \<Rightarrow>
          (case executeRoosterPython e run files1 of
             None \<Rightarrow> None
           | Some (files2, Inl err) \<Rightarrow> Some (files2, getFallbackPredictions e fname)
           | Some (files2, Inr preds) \<Rightarrow>
               (let files3 =
                  (case unlink (inputFile run) files2 of
                     Inl cleanupError \<Rightarrow> files2
                   | Inr files2' \<Rightarrow>
                       (case unlink (outputFile run) files2' of
                          Inl cleanupError \<Rightarrow> files2'
                        | Inr files2'' \<Rightarrow> files2''))
                in Some (files3, preds))))"

section \<open>The approval route\<close>

text \<open>
  \<^verbatim>\<open>POST /api/bia/approve\<close> of \<^verbatim>\<open>dataSourceController.js\<close> and
  \<^verbatim>\<open>DataIntegrationService.pushToFusion\<close>. The request body carries \<^verbatim>\<open>biaId\<close> (the
  empty string when missing) and \<^verbatim>\<open>comments\<close>; the two random record numbers and the
  review date of the push come from outside.
\<close>

record approveRequest =
  biaId :: string
  comments :: jsval

record push_env =
  record_number :: string
  url_number :: string
  review_date :: string

datatype response =
    BadRequest
  | ServerError string
  | ApproveOk jsval string

definition request_valid :: "approveRequest \<Rightarrow> bool" where
  "request_valid req =
     (biaId req \<noteq> [] \<and>
      (case comments req of JUndefined \<Rightarrow> True | JStr c \<Rightarrow> True | _ \<Rightarrow> False))"

definition pushToFusion :: "env \<Rightarrow> push_env \<Rightarrow> world \<Rightarrow> string \<Rightarrow> jsval \<Rightarrow> world \<times> jsval" where
  "pushToFusion e pe w i cs =
     (w\<lparr> fusion_pushes := fusion_pushes w @ [(i, cs)] \<rparr>,
      JObj [(''record_id'', JStr (''BIA-'' @ record_number pe)),
            (''status'', JStr ''active''),
            (''fusion_url'', JStr (''https://fusion.block.xyz/bia/BIA-'' @ url_number pe)),
            (''next_review_date'', JStr (review_date pe)),
            (''iso_compliance'', JStr ''verified''),
            (''comments'', js_or cs (JStr [])),
            (''automated_actions'', JArr
               [JStr ''BCM team notified'',
                JStr ''Continuity plan review scheduled'',
                JStr ''Stakeholder notifications sent'',
                JStr ''Risk register updated'']),
            (''pushed_at'', JStr (now_iso e))])"

definition approve :: "env \<Rightarrow> push_env \<Rightarrow> world \<Rightarrow> approveRequest \<Rightarrow> world \<times> response" where
  "approve e pe w req =
     (if \<not> request_valid req then (w, BadRequest)
      else (let (w1, fusionResult) = pushToFusion e pe w (biaId req) (comments req);
                (w2, updated) = updateBIAStatus w1 (biaId req) ''approved'' (comments req)
            in (w2, ApproveOk fusionResult (now_iso e))))"

section \<open>Notions of the specification\<close>

text \<open>
  The score a source contributes: that of a payload that is present and carries a score
  other than 0. A rejected adapter (\<open>None\<close>) and a payload with no score or the score 0
  contribute none.
\<close>

definition source_score :: "payload option \<Rightarrow> rat option" where
  "source_score data =
     (case data of
        None \<Rightarrow> None
      | Some p \<Rightarrow>
          (case score p of
             None \<Rightarrow> None
           | Some r \<Rightarrow> if double_of r = Finite 0 then None else Some r))"

text \<open>The six slots in the order the aggregator visits them, and those that succeeded.\<close>

definition slots :: "sources \<Rightarrow> payload option list" where
  "slots d = [registry d, pagerDuty d, hr d, financial d, monitoring d, predictions d]"

definition succeeded :: "sources \<Rightarrow> payload option list" where
  "succeeded d = filter (\<lambda>s. s \<noteq> None) (slots d)"

definition contributed :: "payload option \<Rightarrow> number list" where
  "contributed data = (case source_score data of None \<Rightarrow> [] | Some r \<Rightarrow> [double_of r])"

definition contributing :: "sources \<Rightarrow> number list" where
  "contributing d = concat (map contributed (slots d))"

text \<open>
  The arithmetic of the aggregator on doubles: the sum of a list from the left, starting
  at 0, each addition rounded; the mean, the sum divided by the length; the rounding to
  two decimals \<^verbatim>\<open>Math.round(x * 100) / 100\<close>; and the share \<^verbatim>\<open>(n / 6) * 100\<close> of
  \<open>n\<close> sources among six.
\<close>

definition double_sum :: "number list \<Rightarrow> number" where
  "double_sum xs = foldl (\<lambda>a b. js_add a b) (double_of 0) xs"

definition double_mean :: "number list \<Rightarrow> number" where
  "double_mean xs = js_div (double_sum xs) (Finite (of_nat (length xs)))"

definition round2 :: "number \<Rightarrow> number" where
  "round2 x = js_div (math_round (js_mul x (double_of 100))) (double_of 100)"

definition completeness_of :: "nat \<Rightarrow> number" where
  "completeness_of n = js_mul (js_div (Finite (of_nat n)) (double_of 6)) (double_of 100)"

text \<open>The \<^verbatim>\<open>confidence_score\<close> property of a section.\<close>

definition section_confidence :: "jsval \<Rightarrow> jsval" where
  "section_confidence sec = opt_get sec ''confidence_score''"

text \<open>
  The score of a section with two sources and the default \<open>d\<close>: the smaller of the two
  scores, a source that contributes none counting with \<open>d\<close>. The score of a section with
  one source: that source's score, \<open>d\<close> when it contributes none.
\<close>

fun weakest_link :: "rat \<Rightarrow> rat option \<Rightarrow> rat option \<Rightarrow> rat" where
  "weakest_link d (Some a) (Some b) = min a b"
| "weakest_link d (Some a) None = min a d"
| "weakest_link d None (Some b) = min d b"
| "weakest_link d None None = d"

fun inherited :: "rat \<Rightarrow> rat option \<Rightarrow> rat" where
  "inherited d (Some a) = a"
| "inherited d None = d"

text \<open>
  The engine is unavailable in a run when \<^verbatim>\<open>spawn\<close> fails, when the process exits with
  a code other than 0, or when the output file it leaves behind is missing, is not JSON or
  holds \<^verbatim>\<open>null\<close>.
\<close>

definition output_after :: "rooster_run \<Rightarrow> fs \<Rightarrow> content option" where
  "output_after run files =
     (case exec run of
        Closed code (Some c) \<Rightarrow> Some c
      | _ \<Rightarrow> files (outputFile run))"

fun malformed :: "content option \<Rightarrow> bool" where
  "malformed None = True"
| "malformed (Some Unparsable) = True"
| "malformed (Some (Json None)) = True"
| "malformed (Some (Json (Some v))) = False"

definition unavailable :: "rooster_run \<Rightarrow> fs \<Rightarrow> bool" where
  "unavailable run files =
     (case exec run of
        SpawnError \<Rightarrow> True
      | Closed code written \<Rightarrow> code \<noteq> Some 0 \<or> malformed (output_after run files)
      | Hangs \<Rightarrow> False)"

definition in_default_range :: "jsval \<Rightarrow> bool" where
  "in_default_range v = (case v of JNum r \<Rightarrow> 1 / 2 \<le> r \<and> r \<le> 7 / 10 | _ \<Rightarrow> False)"

text \<open>
  A value is populated when neither it nor any value inside it is \<^verbatim>\<open>undefined\<close> or
  \<^verbatim>\<open>null\<close>.
\<close>

fun populated :: "jsval \<Rightarrow> bool" where
  "populated JUndefined = False"
| "populated JNull = False"
| "populated (JArr xs) = list_all populated xs"
| "populated (JObj kvs) = list_all (\<lambda>kv. populated (snd kv)) kvs"
| "populated v = True"

text \<open>A response that reports a failure to the caller.\<close>

fun is_failure :: "response \<Rightarrow> bool" where
  "is_failure BadRequest = True"
| "is_failure (ServerError m) = True"
| "is_failure (ApproveOk fusionRecord approvedAt) = False"

section \<open>Concrete inputs\<close>

definition all_failed :: sources where
  "all_failed =
     \<lparr> registry = None, pagerDuty = None, hr = None,
       financial = None, monitoring = None, predictions = None \<rparr>"

definition scored :: "rat \<Rightarrow> payload" where
  "scored r = \<lparr> score = Some r, props = [(''last_updated'', JStr ''2026-01-01T00:00:00.000Z'')] \<rparr>"

definition full_success :: sources where
  "full_success =
     \<lparr> registry = Some (scored (9 / 10)),
       pagerDuty = Some (scored (4 / 5)),
       hr = Some (scored (3 / 5)),
       financial = Some (scored (3 / 4)),
       monitoring = Some (scored (9 / 10)),
       predictions = Some (scored (41 / 50)) \<rparr>"

definition env0 :: env where
  "env0 = \<lparr> uuid = ''bia-1'', now_iso = ''2026-01-01T00:00:00.000Z'', next_quarter = ''2026-04-01'' \<rparr>"

definition request0 :: biaRequest where
  "request0 =
     \<lparr> functionName = ''PaymentsCore'', functionType = ''product'',
       driName = JStr ''Ada'', driTeam = JStr ''Payments'',
       regionalOverlays = Some [\<lparr> region = ''eu'' \<rparr>],
       autoPopulatedData = full_success \<rparr>"

definition empty_world :: world where
  "empty_world = \<lparr> documents = [], audit_log = [], fusion_pushes = [] \<rparr>"

definition draft_world :: world where
  "draft_world =
     \<lparr> documents = [(''bia-1'', snd (generateBIA env0 empty_world request0))],
       audit_log = [], fusion_pushes = [] \<rparr>"

definition approve0 :: approveRequest where
  "approve0 = \<lparr> biaId = ''bia-1'', comments = JStr ''looks good'' \<rparr>"

definition push_env0 :: push_env where
  "push_env0 = \<lparr> record_number = ''4711'', url_number = ''1234'', review_date = ''1/1/2027'' \<rparr>"

definition failing_run :: rooster_run where
  "failing_run =
     \<lparr> stamp_in = ''1767225600000'', stamp_out = ''1767225600000'',
       write_ok = True, exec = Closed (Some 1) None \<rparr>"

definition no_input :: inputData where
  "no_input = \<lparr> registryData = None, monitoringData = None \<rparr>"

definition scoreless_sources :: sources where
  "scoreless_sources =
     \<lparr> registry = None,
       pagerDuty = Some \<lparr> score = None, props = [] \<rparr>,
       hr = Some \<lparr> score = Some 0, props = [] \<rparr>,
       financial = None, monitoring = None,
       predictions = Some \<lparr> score = None, props = [(''note'', JStr ''no forecast'')] \<rparr> \<rparr>"

definition zero_registry :: sources where
  "zero_registry = all_failed \<lparr> registry := Some (scored 0) \<rparr>"

definition partial_success :: sources where
  "partial_success =
     all_failed \<lparr> financial := Some (scored (3 / 4)), predictions := Some (scored (41 / 50)) \<rparr>"

section \<open>Properties of the confidence aggregator\<close>

lemma double_of_zero: "double_of 0 = Finite 0"
  by (simp add: double_of_def)

lemma nonzero_literals:
  "double_of (9 / 10) \<noteq> Finite 0" "double_of (4 / 5) \<noteq> Finite 0" "double_of (3 / 5) \<noteq> Finite 0"
  "double_of (3 / 4) \<noteq> Finite 0" "double_of (41 / 50) \<noteq> Finite 0"
  by code_simp+

lemma push_score_contributed: "push_score data scores = scores @ contributed data"
  by (simp add: push_score_def contributed_def source_score_def score_value_def
      split: option.splits)

lemma scores_contributing:
  "push_score (predictions d) (push_score (monitoring d) (push_score (financial d)
     (push_score (hr d) (push_score (pagerDuty d) (push_score (registry d) []))))) =
   contributing d"
  by (simp add: push_score_contributed contributing_def slots_def)

text \<open>
  The aggregator in terms of the scores that were contributed: their mean in double
  arithmetic (0.5 when there is none) decides the band and the recommendations before it
  is rounded.
\<close>

lemma aggregate_contributing:
  "calculateConfidenceScores d =
     (let scores = contributing d;
          m = (if scores = [] then double_of (1 / 2) else double_mean scores)
      in \<lparr> overall_confidence = round2 m,
           data_completeness = completeness_of (length scores),
           confidence_level =
             (if js_ge m (double_of (4 / 5)) then ''High''
              else if js_ge m (double_of (3 / 5)) then ''Medium'' else ''Low''),
           recommendations =
             (if js_lt m (double_of (7 / 10))
              then [''Verify data source connections'',
                    ''Update missing information'',
                    ''Schedule data validation review'']
              else []) \<rparr>)"
  unfolding calculateConfidenceScores_def scores_contributing
  by (cases "contributing d = []")
     (simp_all only: Let_def round2_def double_mean_def double_sum_def completeness_of_def
        length_greater_0_conv if_True if_False simp_thms)

lemma empty_assessment:
  "round2 (double_of (1 / 2)) = Finite (1 / 2)"
  "completeness_of 0 = Finite 0"
  "js_ge (double_of (1 / 2)) (double_of (4 / 5)) = False"
  "js_ge (double_of (1 / 2)) (double_of (3 / 5)) = False"
  "js_lt (double_of (1 / 2)) (double_of (7 / 10)) = True"
  by code_simp+

lemma contributing_none:
  "list_all (\<lambda>s. source_score s = None) xs \<Longrightarrow> concat (map contributed xs) = []"
  by (induction xs) (simp_all add: contributed_def)

text \<open>
  C10. When none of the six slots contributes a score (each is null, or its payload has no
  score or the score 0), the aggregator reports the overall confidence 0.5, the level
  "Low", the completeness 0 and the three fixed recommendations.
\<close>

theorem no_contribution_defaults:
  "list_all (\<lambda>s. source_score s = None) (slots d) \<Longrightarrow>
   calculateConfidenceScores d =
     \<lparr> overall_confidence = Finite (1 / 2), data_completeness = Finite 0,
       confidence_level = ''Low'',
       recommendations = [''Verify data source connections'',
                          ''Update missing information'',
                          ''Schedule data validation review''] \<rparr>"
proof -
  assume "list_all (\<lambda>s. source_score s = None) (slots d)"
  then have "contributing d = []"
    unfolding contributing_def by (rule contributing_none)
  then show ?thesis
    by (simp add: aggregate_contributing empty_assessment)
qed

theorem no_contribution_defaults_witness:
  "list_all (\<lambda>s. source_score s = None) (slots scoreless_sources) \<and>
   calculateConfidenceScores scoreless_sources =
     \<lparr> overall_confidence = Finite (1 / 2), data_completeness = Finite 0,
       confidence_level = ''Low'',
       recommendations = [''Verify data source connections'',
                          ''Update missing information'',
                          ''Schedule data validation review''] \<rparr>"
proof -
  have h: "list_all (\<lambda>s. source_score s = None) (slots scoreless_sources)"
    by (simp add: slots_def scoreless_sources_def source_score_def double_of_zero)
  from no_contribution_defaults [OF h] h show ?thesis by simp
qed

lemma source_score_None: "source_score None = None"
  by (simp add: source_score_def)

lemma source_score_scored:
  "source_score (Some (scored r)) = (if double_of r = Finite 0 then None else Some r)"
  by (simp add: source_score_def scored_def)

lemma contributing_full:
  "contributing full_success =
     [double_of (9 / 10), double_of (4 / 5), double_of (3 / 5), double_of (3 / 4),
      double_of (9 / 10), double_of (41 / 50)]"
  by (simp add: contributing_def slots_def full_success_def contributed_def source_score_scored
      nonzero_literals)

lemma full_success_mean:
  "double_mean [double_of (9 / 10), double_of (4 / 5), double_of (3 / 5), double_of (3 / 4),
      double_of (9 / 10), double_of (41 / 50)] = double_of (159 / 200)"
  by code_simp

lemma full_success_numbers:
  "round2 (double_of (159 / 200)) = double_of (4 / 5)"
  "completeness_of (Suc (Suc (Suc (Suc (Suc (Suc 0)))))) = Finite 100"
  "js_ge (double_of (159 / 200)) (double_of (4 / 5)) = False"
  "js_ge (double_of (159 / 200)) (double_of (3 / 5)) = True"
  "js_lt (double_of (159 / 200)) (double_of (7 / 10)) = False"
  by code_simp+

text \<open>
  C3, as the specification states it, fails: with the six scores 0.9, 0.8, 0.6, 0.75, 0.9
  and 0.82 the level is not "High".
\<close>

theorem full_success_level_not_high:
  "confidence_level (calculateConfidenceScores full_success) \<noteq> ''High''"
  by (simp add: aggregate_contributing contributing_full full_success_mean full_success_numbers)

text \<open>
  C3, amended. With the six scores 0.9, 0.8, 0.6, 0.75, 0.9 and 0.82 the overall
  confidence is 0.80 (the mean 0.795 rounded to two decimals) and the completeness is 100;
  the level is "Medium", because the band is taken from the mean before rounding and
  0.795 is below 0.8; there are no recommendations.
\<close>

theorem full_success_assessment:
  "calculateConfidenceScores full_success =
     \<lparr> overall_confidence = double_of (4 / 5), data_completeness = Finite 100,
       confidence_level = ''Medium'', recommendations = [] \<rparr>"
  by (simp add: aggregate_contributing contributing_full full_success_mean full_success_numbers)

lemma set_push_source:
  "set (push_source data name stamp srcs) =
     set srcs \<union>
     (case data of
        None \<Rightarrow> {}
      | Some p \<Rightarrow> {JObj [(''name'', JStr name), (''status'', JStr ''connected''),
                         (''confidence'', score_value data),
                         (''last_updated'', field data stamp)]})"
  by (simp add: push_source_def split: option.splits)

lemma contributed_zero: "contributed (Some (p\<lparr>score := Some 0\<rparr>)) = contributed None"
  by (simp add: contributed_def source_score_def double_of_zero)

text \<open>
  C9. A payload that is present with the score 0 is treated by the aggregator as an absent
  one: the assessment is the one computed with the slot set to null, so the source enters
  neither the mean nor the completeness. The data source summary still lists the source
  as connected, with the confidence 0. This holds for each of the six slots.
\<close>

theorem zero_score_counts_as_absent:
  "(calculateConfidenceScores (d\<lparr>registry := Some (p\<lparr>score := Some 0\<rparr>)\<rparr>) =
      calculateConfidenceScores (d\<lparr>registry := None\<rparr>)
    \<and> JObj [(''name'', JStr ''Registry (Snowflake)''), (''status'', JStr ''connected''),
             (''confidence'', JNum 0), (''last_updated'', obj_get (props p) ''last_updated'')]
        \<in> set (generateDataSourceSummary (d\<lparr>registry := Some (p\<lparr>score := Some 0\<rparr>)\<rparr>)))
 \<and> (calculateConfidenceScores (d\<lparr>pagerDuty := Some (p\<lparr>score := Some 0\<rparr>)\<rparr>) =
      calculateConfidenceScores (d\<lparr>pagerDuty := None\<rparr>)
    \<and> JObj [(''name'', JStr ''PagerDuty''), (''status'', JStr ''connected''),
             (''confidence'', JNum 0), (''last_updated'', obj_get (props p) ''last_updated'')]
        \<in> set (generateDataSourceSummary (d\<lparr>pagerDuty := Some (p\<lparr>score := Some 0\<rparr>)\<rparr>)))
 \<and> (calculateConfidenceScores (d\<lparr>hr := Some (p\<lparr>score := Some 0\<rparr>)\<rparr>) =
      calculateConfidenceScores (d\<lparr>hr := None\<rparr>)
    \<and> JObj [(''name'', JStr ''HR Systems''), (''status'', JStr ''connected''),
             (''confidence'', JNum 0), (''last_updated'', obj_get (props p) ''last_updated'')]
        \<in> set (generateDataSourceSummary (d\<lparr>hr := Some (p\<lparr>score := Some 0\<rparr>)\<rparr>)))
 \<and> (calculateConfidenceScores (d\<lparr>financial := Some (p\<lparr>score := Some 0\<rparr>)\<rparr>) =
      calculateConfidenceScores (d\<lparr>financial := None\<rparr>)
    \<and> JObj [(''name'', JStr ''Financial Systems''), (''status'', JStr ''connected''),
             (''confidence'', JNum 0), (''last_updated'', obj_get (props p) ''last_updated'')]
        \<in> set (generateDataSourceSummary (d\<lparr>financial := Some (p\<lparr>score := Some 0\<rparr>)\<rparr>)))
 \<and> (calculateConfidenceScores (d\<lparr>monitoring := Some (p\<lparr>score := Some 0\<rparr>)\<rparr>) =
      calculateConfidenceScores (d\<lparr>monitoring := None\<rparr>)
    \<and> JObj [(''name'', JStr ''Monitoring Systems''), (''status'', JStr ''connected''),
             (''confidence'', JNum 0), (''last_updated'', obj_get (props p) ''last_updated'')]
        \<in> set (generateDataSourceSummary (d\<lparr>monitoring := Some (p\<lparr>score := Some 0\<rparr>)\<rparr>)))
 \<and> (calculateConfidenceScores (d\<lparr>predictions := Some (p\<lparr>score := Some 0\<rparr>)\<rparr>) =
      calculateConfidenceScores (d\<lparr>predictions := None\<rparr>)
    \<and> JObj [(''name'', JStr ''Rooster Predictions''), (''status'', JStr ''connected''),
             (''confidence'', JNum 0), (''last_updated'', obj_get (props p) ''generated_at'')]
        \<in> set (generateDataSourceSummary (d\<lparr>predictions := Some (p\<lparr>score := Some 0\<rparr>)\<rparr>)))"
  by (simp_all add: aggregate_contributing contributing_def slots_def contributed_zero
        generateDataSourceSummary_def set_push_source score_value_def field_def)

lemma length_contributing:
  "list_all (\<lambda>s. s \<noteq> None \<longrightarrow> source_score s \<noteq> None) xs \<Longrightarrow>
   length (concat (map contributed xs)) = length (filter (\<lambda>s. s \<noteq> None) xs)"
  by (induction xs) (auto simp: contributed_def source_score_def split: option.splits)

lemma contributing_zero_registry: "contributing zero_registry = []"
  by (simp add: contributing_def slots_def zero_registry_def all_failed_def contributed_def
      source_score_scored source_score_None double_of_zero)

lemma succeeded_zero_registry: "length (succeeded zero_registry) = 1"
  by (simp add: succeeded_def slots_def zero_registry_def all_failed_def)

lemma completeness_one: "Finite 0 \<noteq> completeness_of (Suc 0)"
  by code_simp

text \<open>
  C4, as the specification states it, fails. When the registry alone succeeds, with the
  score 0, one source of six succeeded but the completeness is 0, not the share of one
  source among six.
\<close>

theorem completeness_counts_scores_not_sources:
  "length (succeeded zero_registry) = 1
   \<and> data_completeness (calculateConfidenceScores zero_registry) = Finite 0
   \<and> data_completeness (calculateConfidenceScores zero_registry) \<noteq>
       completeness_of (length (succeeded zero_registry))"
  by (simp add: aggregate_contributing contributing_zero_registry succeeded_zero_registry
      empty_assessment completeness_one)

text \<open>
  The seven values the completeness takes: 0, 16.666666666666664, 33.33333333333333, 50,
  66.66666666666666, 83.33333333333334 and 100.
\<close>

lemma completeness_values:
  "map completeness_of [0, 1, 2, 3, 4, 5, 6] =
     [Finite 0, double_of (16666666666666664 / 10 ^ 15), double_of (3333333333333333 / 10 ^ 14),
      Finite 50, double_of (6666666666666666 / 10 ^ 14), double_of (8333333333333334 / 10 ^ 14),
      Finite 100]"
  by code_simp

text \<open>
  C4, amended. When every source that succeeded carries a score other than 0, the scores
  the aggregator collects are those of the set S of the sources that succeeded and no
  others. The completeness is \<^verbatim>\<open>(|S| / 6) * 100\<close> as doubles compute it. The overall
  confidence is 0.5 when S is empty and otherwise the mean of the scores of S only, summed
  in the order of the slots and divided by |S| in double arithmetic, then rounded to two
  decimals by \<^verbatim>\<open>Math.round(x * 100) / 100\<close>.
\<close>

theorem partial_degradation:
  assumes "list_all (\<lambda>s. s \<noteq> None \<longrightarrow> source_score s \<noteq> None) (slots d)"
  shows "length (contributing d) = length (succeeded d)
       \<and> data_completeness (calculateConfidenceScores d) = completeness_of (length (succeeded d))
       \<and> overall_confidence (calculateConfidenceScores d) =
           (if succeeded d = [] then Finite (1 / 2)
            else round2 (js_div (double_sum (contributing d))
                                (Finite (of_nat (length (succeeded d))))))"
proof -
  have len: "length (contributing d) = length (succeeded d)"
    using length_contributing [OF assms] by (simp add: contributing_def succeeded_def)
  then have emp: "contributing d = [] \<longleftrightarrow> succeeded d = []"
    by (metis length_0_conv)
  have "data_completeness (calculateConfidenceScores d) = completeness_of (length (succeeded d))"
    by (simp add: aggregate_contributing Let_def len)
  moreover have "overall_confidence (calculateConfidenceScores d) =
           (if succeeded d = [] then Finite (1 / 2)
            else round2 (js_div (double_sum (contributing d))
                                (Finite (of_nat (length (succeeded d))))))"
    by (simp add: aggregate_contributing Let_def len emp double_mean_def empty_assessment)
  ultimately show ?thesis using len by simp
qed

lemma contributing_partial:
  "contributing partial_success = [double_of (3 / 4), double_of (41 / 50)]"
  by (simp add: contributing_def slots_def partial_success_def all_failed_def contributed_def
      source_score_scored source_score_None nonzero_literals)

lemma succeeded_partial: "length (succeeded partial_success) = 2"
  by (simp add: succeeded_def slots_def partial_success_def all_failed_def)

lemma partial_numbers:
  "round2 (js_div (double_sum [double_of (3 / 4), double_of (41 / 50)]) (Finite 2)) =
     double_of (39 / 50)"
  "completeness_of 2 = double_of (3333333333333333 / 10 ^ 14)"
  by code_simp+

theorem partial_degradation_witness:
  "list_all (\<lambda>s. s \<noteq> None \<longrightarrow> source_score s \<noteq> None) (slots partial_success)
   \<and> data_completeness (calculateConfidenceScores partial_success) =
       double_of (3333333333333333 / 10 ^ 14)
   \<and> overall_confidence (calculateConfidenceScores partial_success) = double_of (39 / 50)"
proof -
  have h: "list_all (\<lambda>s. s \<noteq> None \<longrightarrow> source_score s \<noteq> None) (slots partial_success)"
    by (simp add: slots_def partial_success_def all_failed_def source_score_scored
        nonzero_literals del: not_None_eq)
  have ne: "succeeded partial_success \<noteq> []"
    using succeeded_partial by auto
  from partial_degradation [OF h] h ne show ?thesis
    by (simp add: succeeded_partial contributing_partial partial_numbers)
qed

section \<open>Properties of the section builders\<close>

lemma score_or_source_score: "score_or data d = inherited d (source_score data)"
  by (simp add: score_or_def source_score_def score_value_def js_or_def split: option.splits)

lemma min_weakest_link: "min (inherited d x) (inherited d y) = weakest_link d x y"
  by (cases x; cases y) simp_all

text \<open>
  C2, as the specification states it, fails. The personnel section with the HR source
  alone successful, at 0.9, does not inherit 0.9 (its score is 0.5). The risk and
  compliance section with no successful source has a score outside [0.5, 0.7] (it is 0.8).
  The business-impact section with the financial source at 0.9 and the predictions at
  0.6 does not take the minimum 0.6 (its score is 0.9).
\<close>

theorem section_scores_not_as_stated:
  "section_confidence (generatePersonnelSection (Some (scored (9 / 10))) None) \<noteq> JNum (9 / 10)
 \<and> \<not> in_default_range (section_confidence (generateRiskComplianceSection None ''product''))
 \<and> section_confidence
       (generateBusinessImpactSection (Some (scored (9 / 10))) (Some (scored (3 / 5))))
      \<noteq> JNum (min (9 / 10) (3 / 5))"
  by (simp add: section_confidence_def generatePersonnelSection_def obj_get_def
        generateRiskComplianceSection_def generateBusinessImpactSection_def Let_def
        score_or_source_score source_score_scored source_score_None nonzero_literals
        in_default_range_def)

text \<open>
  C2, amended. A source contributes its score when its payload is present with a score
  other than 0. The personnel section (HR, PagerDuty; default 0.5) and the recovery section
  (predictions, monitoring; default 0.7) have the minimum of their two sources' scores, a
  source that contributes none counting with the section's default: the minimum of both
  scores when both contribute, the minimum of the one score and the default when one
  does, the default when none does. The technology section has the registry's score, 0.7
  when the registry contributes none. The business-impact section, when the predictions
  failed, has the financial source's score, 0.6 when that contributes none. The risk and
  compliance section and the ISO 22301 section have the fixed scores 0.8 and 0.85. With no
  successful source the four source-derived sections have a default in [0.5, 0.7].
\<close>

theorem section_confidence_rules:
  "section_confidence (generatePersonnelSection hrData pagerDutyData) =
     JNum (weakest_link (1 / 2) (source_score hrData) (source_score pagerDutyData))
 \<and> section_confidence (generateRecoverySection preds mon) =
     JNum (weakest_link (7 / 10) (source_score preds) (source_score mon))
 \<and> section_confidence (generateTechnologySection reg) =
     JNum (inherited (7 / 10) (source_score reg))
 \<and> section_confidence (generateBusinessImpactSection fin None) =
     JNum (inherited (3 / 5) (source_score fin))
 \<and> section_confidence (generateRiskComplianceSection reg ftype) = JNum (4 / 5)
 \<and> section_confidence (generateISO22301Section e ftype preds) = JNum (17 / 20)
 \<and> in_default_range (section_confidence (generatePersonnelSection None None))
 \<and> in_default_range (section_confidence (generateRecoverySection None None))
 \<and> in_default_range (section_confidence (generateTechnologySection None))
 \<and> in_default_range (section_confidence (generateBusinessImpactSection None None))"
  apply (intro conjI)
  subgoal by (simp add: section_confidence_def generatePersonnelSection_def obj_get_def
        score_or_source_score min_weakest_link)
  subgoal by (simp add: section_confidence_def generateRecoverySection_def obj_get_def
        score_or_source_score min_weakest_link)
  subgoal by (simp add: section_confidence_def generateTechnologySection_def obj_get_def
        score_or_source_score)
  subgoal by (simp add: section_confidence_def generateBusinessImpactSection_def obj_get_def
        score_or_source_score Let_def)
  subgoal by (simp add: section_confidence_def generateRiskComplianceSection_def obj_get_def
        Let_def)
  subgoal by (simp add: section_confidence_def generateISO22301Section_def obj_get_def)
  subgoal by (simp add: section_confidence_def generatePersonnelSection_def obj_get_def
        score_or_source_score source_score_None in_default_range_def)
  subgoal by (simp add: section_confidence_def generateRecoverySection_def obj_get_def
        score_or_source_score source_score_None in_default_range_def)
  subgoal by (simp add: section_confidence_def generateTechnologySection_def obj_get_def
        score_or_source_score source_score_None in_default_range_def)
  subgoal by (simp add: section_confidence_def generateBusinessImpactSection_def obj_get_def
        score_or_source_score source_score_None in_default_range_def Let_def)
  done

text \<open>
  The business-impact section never reads the predictions' score: whatever the
  predictions are, its score is the one it has without them.
\<close>

lemma business_impact_ignores_predictions:
  "section_confidence (generateBusinessImpactSection fin preds) =
   section_confidence (generateBusinessImpactSection fin None)"
  by (simp add: section_confidence_def generateBusinessImpactSection_def obj_get_def Let_def)

section \<open>Properties of the document assembler\<close>

lemma field_None: "field None name = JUndefined"
  by (simp add: field_def)

lemma score_or_None: "score_or None d = d"
  by (simp add: score_or_def score_value_def js_or_def)

lemma js_or_undefined: "js_or JUndefined v = v"
  by (simp add: js_or_def)

text \<open>The document \<^verbatim>\<open>generateBIA\<close> returns; the store is left as it was.\<close>

lemma generateBIA_document:
  "generateBIA e w req =
     (w,
      \<lparr> bia_id = uuid e,
        function_name = functionName req,
        function_type = functionType req,
        dri_name = driName req,
        dri_team = driTeam req,
        generated_at = now_iso e,
        status = ''draft'',
        version = ''1.0'',
        personnel_information =
          generatePersonnelSection (hr (autoPopulatedData req)) (pagerDuty (autoPopulatedData req)),
        business_impact =
          generateBusinessImpactSection (financial (autoPopulatedData req))
            (predictions (autoPopulatedData req)),
        technology_dependencies = generateTechnologySection (registry (autoPopulatedData req)),
        recovery_requirements =
          generateRecoverySection (predictions (autoPopulatedData req))
            (monitoring (autoPopulatedData req)),
        risk_compliance =
          generateRiskComplianceSection (registry (autoPopulatedData req)) (functionType req),
        iso_22301_compliance =
          generateISO22301Section e (functionType req) (predictions (autoPopulatedData req)),
        regional_overlays =
          (case regionalOverlays req of
             Some overlays \<Rightarrow> generateRegionalOverlays overlays
           | None \<Rightarrow> []),
        predictive_analysis = predictions (autoPopulatedData req),
        data_sources = generateDataSourceSummary (autoPopulatedData req),
        confidence_assessment = calculateConfidenceScores (autoPopulatedData req) \<rparr>)"
  by (simp add: generateBIA_def storeBIA_def Let_def)

lemma populated_lookup:
  "list_all (\<lambda>kv. populated (snd kv)) table \<Longrightarrow> populated dflt \<Longrightarrow>
   populated (js_or (obj_get table k) dflt)"
  by (induction table) (auto simp: js_or_def obj_get_def split: option.splits)

lemma populated_tables:
  "populated (getBCMClassification ft)" "populated (getMTPD ft)" "populated (getMBCO ft)"
  "populated (getResourceRequirements ft)" "populated (getComplianceRequirements ft)"
  "populated (getDataClassification ft)" "populated (getRegulatoryImpact ft)"
  "populated (getLegalEntity r)" "populated (getRegulatoryFramework r)"
  "populated (getDataResidency r)" "populated (getLocalRequirements r)"
  "populated (getRegionalRTO r)" "populated (getRegionalRPO r)"
  by (simp_all add: getBCMClassification_def getMTPD_def getMBCO_def
       getResourceRequirements_def getComplianceRequirements_def getDataClassification_def
       getRegulatoryImpact_def getLegalEntity_def getRegulatoryFramework_def
       getDataResidency_def getLocalRequirements_def getRegionalRTO_def getRegionalRPO_def
       populated_lookup)

lemma all_failed_contributing: "contributing all_failed = []"
  by (simp add: contributing_def slots_def all_failed_def contributed_def source_score_None)

text \<open>
  C1. When all six slots of \<^verbatim>\<open>autoPopulatedData\<close> are null, \<^verbatim>\<open>generateBIA\<close> returns
  a document, for every request and clock. Its four source-derived sections consist of the
  fallback placeholders of the source; its two rule-derived sections consist of the rows
  of the rule tables, the fixed lists and the fallback risk assessment; in all six
  sections every field is populated. The confidence level is "Low" and the completeness
  is 0.
\<close>

theorem total_degradation:
  "(let doc = snd (generateBIA e w (req\<lparr>autoPopulatedData := all_failed\<rparr>)) in
   personnel_information doc = JObj
     [(''team_size'', JStr ''Unknown''),
      (''key_personnel'', JArr
         [JObj [(''name'', JStr ''Tech Lead (TBD)''), (''role'', JStr ''Technical Leadership''),
                (''backup'', JStr ''Senior Engineer'')],
          JObj [(''name'', JStr ''Product Manager (TBD)''), (''role'', JStr ''Product Strategy''),
                (''backup'', JStr ''Associate PM'')],
          JObj [(''name'', JStr ''Operations Manager (TBD)''), (''role'', JStr ''Operations''),
                (''backup'', JStr ''Senior Ops'')]]),
      (''escalation_policy'', JStr ''Standard escalation path''),
      (''on_call_schedule'', JStr ''24/7 rotation''),
      (''manager_chain'', JArr [JStr ''Team Lead'', JStr ''Manager'', JStr ''Director'', JStr ''VP'']),
      (''business_hours'', JStr ''24/7 operations''),
      (''confidence_score'', JNum (1 / 2)),
      (''data_sources'', JArr [JStr ''HR Systems'', JStr ''PagerDuty'']),
      (''auto_populated'', JBool True)]
 \<and> business_impact doc = JObj
     [(''daily_revenue_impact'', JStr ''TBD''),
      (''monthly_revenue_impact'', JStr ''TBD''),
      (''active_customers'', JStr ''TBD''),
      (''transaction_volume'', JObj [(''daily'', JStr ''TBD''), (''peak_hourly'', JStr ''TBD'')]),
      (''customer_segments'',
         JObj [(''enterprise'', JStr ''TBD''), (''smb'', JStr ''TBD''), (''consumer'', JStr ''TBD'')]),
      (''impact_timeline'', JObj
         [(''1_4_hours'', JStr ''Minimal customer impact, <$100K revenue''),
          (''4_24_hours'', JStr ''Moderate customer impact, $100K-$1M revenue''),
          (''1_7_days'', JStr ''Significant customer impact, $1M-$10M revenue''),
          (''7_plus_days'', JStr ''Severe customer impact, >$10M revenue'')]),
      (''predictive_impact'', JObj
         [(''twelve_month_forecast'', JStr ''TBD''),
          (''risk_level'', JStr ''Medium''),
          (''improvement_potential'', JStr ''TBD'')]),
      (''confidence_score'', JNum (3 / 5)),
      (''data_sources'',
         JArr [JStr ''Financial Systems'', JStr ''Analytics APIs'', JStr ''Rooster Predictions'']),
      (''auto_populated'', JBool True)]
 \<and> technology_dependencies doc = JObj
     [(''core_technologies'', JArr [JStr ''Unknown'']),
      (''service_dependencies'', JArr [JStr ''Unknown'']),
      (''reliability_tier'', JStr ''Unknown''),
      (''deployment_info'',
         JObj [(''regions'', JArr [JStr ''Unknown'']), (''replicas'', JStr ''Unknown''),
               (''auto_scaling'', JStr ''Unknown'')]),
      (''documentation'', JObj
         [(''runbook_url'', JStr ''TBD''),
          (''documentation_url'', JStr ''TBD''),
          (''slack_channel'', JStr ''TBD'')]),
      (''confidence_score'', JNum (7 / 10)),
      (''data_sources'', JArr [JStr ''Registry (Snowflake)'', JStr ''CMDB'']),
      (''auto_populated'', JBool True)]
 \<and> recovery_requirements doc = JObj
     [(''rto'', JObj
         [(''current'', JStr ''4 hours''), (''target'', JStr ''2 hours''),
          (''confidence'', JNum (7 / 10))]),
      (''rpo'', JObj
         [(''current'', JStr ''1 hour''), (''target'', JStr ''30 minutes''),
          (''confidence'', JNum (7 / 10))]),
      (''current_availability'', JStr ''99.5%''),
      (''sla_target'', JStr ''99.9%''),
      (''mttr'', JStr ''TBD''),
      (''recovery_timeline'', JObj
         [(''detection'', JStr ''0-15 minutes''),
          (''initial_response'', JStr ''15-30 minutes''),
          (''mitigation'', JStr ''30 minutes - 2 hours''),
          (''full_recovery'', JStr ''2-4 hours'')]),
      (''scenarios'', JObj
         [(''best_case'',
             JObj [(''rto'', JStr ''TBD''), (''rpo'', JStr ''TBD''), (''probability'', JStr ''25%'')]),
          (''most_likely'',
             JObj [(''rto'', JStr ''TBD''), (''rpo'', JStr ''TBD''), (''probability'', JStr ''50%'')]),
          (''worst_case'',
             JObj [(''rto'', JStr ''TBD''), (''rpo'', JStr ''TBD''), (''probability'', JStr ''25%'')])]),
      (''confidence_score'', JNum (7 / 10)),
      (''data_sources'',
         JArr [JStr ''Rooster Predictions'', JStr ''Monitoring Systems'', JStr ''Historical Data'']),
      (''auto_populated'', JBool True)]
 \<and> risk_compliance doc = JObj
     [(''compliance_requirements'', getComplianceRequirements (functionType req)),
      (''data_classification'', getDataClassification (functionType req)),
      (''regulatory_impact'', getRegulatoryImpact (functionType req)),
      (''security_considerations'', JArr
         [JStr ''Data encryption in transit and at rest'',
          JStr ''Access controls and authentication'',
          JStr ''Audit logging and monitoring'',
          JStr ''Incident response procedures'']),
      (''confidence_score'', JNum (4 / 5)),
      (''data_sources'', JArr [JStr ''Compliance Database'', JStr ''Security Policies'']),
      (''auto_populated'', JBool True)]
 \<and> iso_22301_compliance doc = JObj
     [(''business_function_classification'', getBCMClassification (functionType req)),
      (''mtpd'', getMTPD (functionType req)),
      (''mbco'', getMBCO (functionType req)),
      (''resource_requirements'', getResourceRequirements (functionType req)),
      (''continuity_strategies'', JArr
         [JStr ''Automated failover procedures'',
          JStr ''Geographic redundancy'',
          JStr ''Data backup and recovery'',
          JStr ''Alternative processing sites'']),
      (''testing_requirements'', JObj
         [(''frequency'', JStr ''Quarterly''),
          (''scope'', JStr ''Full system recovery''),
          (''success_criteria'', JStr ''RTO/RPO targets met''),
          (''next_test_date'', JStr (next_quarter e))]),
      (''risk_assessment'', JObj
         [(''overall_risk'', JStr ''Medium''),
          (''risk_factors'', JArr [JStr ''Standard operational risks'']),
          (''mitigation_recommendations'', JArr [JStr ''Standard mitigation strategies''])]),
      (''confidence_score'', JNum (17 / 20)),
      (''data_sources'',
         JArr [JStr ''ISO 22301 Framework'', JStr ''BCM Policies'', JStr ''Rooster Analysis'']),
      (''auto_populated'', JBool True)]
 \<and> list_all populated
       [personnel_information doc, business_impact doc, technology_dependencies doc,
        recovery_requirements doc, risk_compliance doc, iso_22301_compliance doc]
 \<and> confidence_level (confidence_assessment doc) = ''Low''
 \<and> data_completeness (confidence_assessment doc) = Finite 0)"
  unfolding Let_def generateBIA_document
  apply (intro conjI)
  subgoal by (simp add: all_failed_def generatePersonnelSection_def field_None score_or_None
        js_or_undefined)
  subgoal by (simp add: all_failed_def generateBusinessImpactSection_def
        calculateImpactMatrix_def obj_get_def field_None score_or_None js_or_undefined)
  subgoal by (simp add: all_failed_def generateTechnologySection_def field_None score_or_None
        js_or_undefined)
  subgoal by (simp add: all_failed_def generateRecoverySection_def field_None score_or_None
        js_or_undefined)
  subgoal by (simp add: all_failed_def generateRiskComplianceSection_def)
  subgoal by (simp add: all_failed_def generateISO22301Section_def getNextTestDate_def
        field_None js_or_undefined)
  subgoal by (simp add: all_failed_def generatePersonnelSection_def
        generateBusinessImpactSection_def calculateImpactMatrix_def obj_get_def
        generateTechnologySection_def generateRecoverySection_def
        generateRiskComplianceSection_def generateISO22301Section_def getNextTestDate_def
        field_None score_or_None js_or_undefined populated_tables)
  subgoal by (simp add: aggregate_contributing all_failed_contributing empty_assessment)
  subgoal by (simp add: aggregate_contributing all_failed_contributing empty_assessment)
  done

section \<open>Properties of the rule tables\<close>

lemma lookup_default:
  "map_of table k = None \<Longrightarrow> k \<notin> set object_prototype_names \<Longrightarrow>
   js_or (obj_get table k) dflt = dflt"
  by (simp add: obj_get_def js_or_def)

text \<open>
  A key that is neither a row of the table nor a property name of \<^verbatim>\<open>Object.prototype\<close>
  yields the default row of each lookup.
\<close>

lemma unknown_keys_default:
  assumes "ft \<notin> set [''product'', ''platform'', ''support'', ''infrastructure'', ''compliance'']"
      and "ft \<notin> set object_prototype_names"
      and "r \<notin> set [''na'', ''eu'', ''apac'']"
      and "r \<notin> set object_prototype_names"
  shows "getBCMClassification ft = JStr ''To Be Determined''"
    and "getMTPD ft = JStr ''4 hours''"
    and "getMBCO ft = JStr ''60% capacity within MTPD''"
    and "getResourceRequirements ft = JStr ''Standard backup procedures''"
    and "getComplianceRequirements ft = JArr [JStr ''Standard Controls'']"
    and "getLegalEntity r = JStr ''TBD''"
    and "getRegulatoryFramework r = JStr ''Local Regulations''"
    and "getDataResidency r = JStr ''Local Requirements''"
    and "getRegionalRTO r = JStr ''4 hours''"
    and "getRegionalRPO r = JStr ''1 hour''"
  using assms
  by (simp_all add: getBCMClassification_def getMTPD_def getMBCO_def
       getResourceRequirements_def getComplianceRequirements_def getLegalEntity_def
       getRegulatoryFramework_def getDataResidency_def getRegionalRTO_def getRegionalRPO_def
       lookup_default)

text \<open>
  C5 fails on the code at keys that name a member of \<^verbatim>\<open>Object.prototype\<close>. The region
  code "constructor" and the function type "toString" are not rows of the tables, yet
  the lookups \<^verbatim>\<open>table[key] || default\<close> find the inherited member, which is truthy, and
  return it in place of the default row; no lookup raises.
\<close>

theorem inherited_keys_bypass_defaults:
  "getLegalEntity ''constructor'' = JBuiltin ''constructor''
 \<and> getRegulatoryFramework ''constructor'' = JBuiltin ''constructor''
 \<and> getDataResidency ''constructor'' = JBuiltin ''constructor''
 \<and> getRegionalRTO ''constructor'' = JBuiltin ''constructor''
 \<and> getRegionalRPO ''constructor'' = JBuiltin ''constructor''
 \<and> getBCMClassification ''toString'' = JBuiltin ''toString''
 \<and> getMTPD ''toString'' = JBuiltin ''toString''
 \<and> getMBCO ''toString'' = JBuiltin ''toString''
 \<and> getResourceRequirements ''toString'' = JBuiltin ''toString''
 \<and> getComplianceRequirements ''toString'' = JBuiltin ''toString''
 \<and> getLegalEntity ''constructor'' \<noteq> JStr ''TBD''"
  by (simp add: getBCMClassification_def getMTPD_def getMBCO_def getResourceRequirements_def
       getComplianceRequirements_def getLegalEntity_def getRegulatoryFramework_def
       getDataResidency_def getRegionalRTO_def getRegionalRPO_def obj_get_def js_or_def
       object_prototype_names_def)

section \<open>Properties of the predictive engine\<close>

lemma temp_files_distinct: "inputFile run \<noteq> outputFile run'"
  by (simp add: inputFile_def outputFile_def path_join_def roosterPath_def)





text \<open>
  When the engine ran and its output was formatted, both temporary files are gone when
  \<^verbatim>\<open>generatePredictions\<close> returns.
\<close>

lemma success_cleanup:
  assumes "write_ok run" "exec run = Closed (Some 0) (Some (Json (Some rd)))"
  shows "\<exists>files' p. generatePredictions e run files fname inp = Some (files', p)
           \<and> formatRoosterOutput e (Some rd) = Inr p
           \<and> files' (inputFile run) = None \<and> files' (outputFile run) = None"
  using assms temp_files_distinct [of run run]
  by (simp add: generatePredictions_def writeFile_def executeRoosterPython_def Let_def
       unlink_def formatRoosterOutput_def)

text \<open>
  When the input file was written and the engine is unavailable, the \<^verbatim>\<open>catch\<close> is
  entered before the two \<^verbatim>\<open>unlink\<close> calls and the input file is still there when
  \<^verbatim>\<open>generatePredictions\<close> returns.
\<close>

lemma failure_leaves_input:
  assumes "write_ok run" "unavailable run files"
  shows "\<exists>files' p. generatePredictions e run files fname inp = Some (files', p)
           \<and> files' (inputFile run) \<noteq> None"
  using assms temp_files_distinct [of run run]
  by (auto simp: generatePredictions_def writeFile_def executeRoosterPython_def Let_def
       unavailable_def formatRoosterOutput_def output_after_def
       split: exec_outcome.splits option.splits content.splits)

text \<open>
  C8 fails on the code. In the run where the input file is written and the engine exits
  with code 1, \<^verbatim>\<open>generatePredictions\<close> returns the fallback predictions and the
  temporary input file still exists, with the content that was written to it.
\<close>

theorem failed_run_keeps_input_file:
  "(case generatePredictions env0 failing_run Map.empty ''PaymentsCore'' no_input of
      None \<Rightarrow> False
    | Some (files', p) \<Rightarrow>
        p = getFallbackPredictions env0 ''PaymentsCore'' \<and>
        files' (inputFile failing_run) =
          Some (Json (Some (roosterInput env0 ''PaymentsCore'' no_input))))"
  by (simp add: generatePredictions_def writeFile_def executeRoosterPython_def failing_run_def
       Let_def)

section \<open>Properties of the approval route\<close>

text \<open>
  C7, as the specification states it, fails. The store holds a document whose status is
  draft; the request to approve it is answered with success, not with a failure, and
  the push to the risk platform is performed.
\<close>

theorem draft_approval_not_rejected:
  "map_option status (map_of (documents draft_world) ''bia-1'') = Some ''draft''
   \<and> \<not> is_failure (snd (approve env0 push_env0 draft_world approve0))
   \<and> fusion_pushes (fst (approve env0 push_env0 draft_world approve0)) \<noteq>
       fusion_pushes draft_world"
  by (simp add: approve_def pushToFusion_def updateBIAStatus_def draft_world_def approve0_def
       request_valid_def generateBIA_document)

text \<open>
  C7, amended. The approval route never reads the status of the document and knows no
  invalid-transition error. For every store and every valid request (a non-empty id,
  comments a string or absent) it answers with success after pushing to the risk
  platform; the stored documents, hence the status of each, and the audit log are left
  unchanged.
\<close>

theorem approve_any_status:
  "request_valid req \<Longrightarrow>
     (case approve e pe w req of
        (w', ApproveOk fusionRecord approvedAt) \<Rightarrow>
           documents w' = documents w \<and> audit_log w' = audit_log w \<and>
           fusion_pushes w' = fusion_pushes w @ [(biaId req, comments req)]
      | _ \<Rightarrow> False)"
  by (simp add: approve_def pushToFusion_def updateBIAStatus_def)

theorem approve_any_status_witness:
  "request_valid approve0
   \<and> map_option status (map_of (documents draft_world) ''bia-1'') = Some ''draft''
   \<and> (case approve env0 push_env0 draft_world approve0 of
        (w', ApproveOk fusionRecord approvedAt) \<Rightarrow>
           documents w' = documents draft_world \<and> audit_log w' = audit_log draft_world \<and>
           fusion_pushes w' = fusion_pushes draft_world @ [(''bia-1'', JStr ''looks good'')]
      | _ \<Rightarrow> False)"
proof -
  have h: "request_valid approve0"
    by (simp add: request_valid_def approve0_def)
  have d: "map_option status (map_of (documents draft_world) ''bia-1'') = Some ''draft''"
    by (simp add: draft_world_def generateBIA_document)
  have a: "biaId approve0 = ''bia-1''" "comments approve0 = JStr ''looks good''"
    by (simp_all add: approve0_def)
  have r: "(case approve env0 push_env0 draft_world approve0 of
        (w', ApproveOk fusionRecord approvedAt) \<Rightarrow>
           documents w' = documents draft_world \<and> audit_log w' = audit_log draft_world \<and>
           fusion_pushes w' = fusion_pushes draft_world @ [(''bia-1'', JStr ''looks good'')]
      | _ \<Rightarrow> False)"
    using approve_any_status [OF h, where e = env0 and pe = push_env0 and w = draft_world]
    unfolding a .
  from h d r show ?thesis by (intro conjI)
qed

end
